theory Spec2Isabelle
  imports Main "HOL-Library.Word"
begin

section \<open>NodeRpcProxy: the client-side proxy of a remote daemon\<close>

text \<open>
  A shallow embedding of \<^verbatim>\<open>src/node_rpc_proxy/NodeRpcProxy.cpp\<close>. The proxy object is a
  record of its members; every member function takes the record and returns it updated.
  What the proxy does to its collaborators is kept in the record as ordered logs: the
  commands issued on the HTTP client, the calls of \<^verbatim>\<open>m_observerManager.notify\<close>, the
  handlers given to \<^verbatim>\<open>m_ioService.post\<close> and the invocations of the callers' callbacks.
  What the daemon answers to a command is an argument of the function that issues it.
\<close>

subsection \<open>Error codes\<close>

text \<open>
  The enumeration \<^verbatim>\<open>error::NodeErrorCodes\<close> of \<^verbatim>\<open>NodeErrors.h\<close>, as far as this file
  uses it. A \<^verbatim>\<open>std::error_code\<close> is \<open>None\<close> when default-constructed (value 0, so that
  \<^verbatim>\<open>!ec\<close> holds) and \<open>Some e\<close> when made by \<^verbatim>\<open>make_error_code(e)\<close>.
\<close>

datatype node_error =
  NOT_INITIALIZED | ALREADY_INITIALIZED | NETWORK_ERROR | NODE_BUSY | INTERNAL_NODE_ERROR

type_synonym error_code = "node_error option"

subsection \<open>Command dispatcher\<close>

text \<open>Every response structure of the daemon carries a \<^verbatim>\<open>status\<close> string; the concrete
  responses extend this record.\<close>

record response =
  status :: string

definition CORE_RPC_STATUS_OK :: string where
  \<comment> \<open>Modelled from the spec: the macro of \<^verbatim>\<open>rpc/core_rpc_server_commands_defs.h\<close>
     is not part of the sources; the recognized values are "OK" and "BUSY".\<close>
  "CORE_RPC_STATUS_OK = ''OK''"

definition CORE_RPC_STATUS_BUSY :: string where
  \<comment> \<open>Modelled from the spec: the macro of \<^verbatim>\<open>rpc/core_rpc_server_commands_defs.h\<close>
     is not part of the sources; the recognized values are "OK" and "BUSY".\<close>
  "CORE_RPC_STATUS_BUSY = ''BUSY''"

definition interpretResponseStatus :: "string \<Rightarrow> error_code" where
  "interpretResponseStatus st =
     (if CORE_RPC_STATUS_BUSY = st then Some NODE_BUSY
      else if CORE_RPC_STATUS_OK \<noteq> st then Some INTERNAL_NODE_ERROR
      else None)"

text \<open>
  \<^verbatim>\<open>invokeBinaryCommand\<close> and \<^verbatim>\<open>invokeJsonCommand\<close> belong to the HTTP client: a call
  either throws a \<^verbatim>\<open>std::exception\<close> or returns after filling the response.
\<close>

datatype 'r invoke_outcome = Throws | Returns 'r

definition binaryCommand :: "'a response_scheme invoke_outcome \<Rightarrow> 'a response_scheme \<Rightarrow> error_code \<times> 'a response_scheme" where
  "binaryCommand oc res =
     (case oc of
        Returns r \<Rightarrow> (interpretResponseStatus (status r), r)
      | Throws \<Rightarrow> (Some NETWORK_ERROR, res))"

definition jsonCommand :: "'a response_scheme invoke_outcome \<Rightarrow> 'a response_scheme \<Rightarrow> error_code \<times> 'a response_scheme" where
  "jsonCommand oc res =
     (case oc of
        Returns r \<Rightarrow> (interpretResponseStatus (status r), r)
      | Throws \<Rightarrow> (Some NETWORK_ERROR, res))"

text \<open>
  The JSON-RPC command talks to the client itself. \<^verbatim>\<open>client.request\<close> throws or returns
  an HTTP response with a status code and a body; on the body, \<^verbatim>\<open>jsRes.parse\<close> followed
  by \<^verbatim>\<open>jsRes.getResult(res)\<close> throws, returns false, or fills the response and returns
  true.
\<close>

datatype 'r envelope = EnvelopeThrows | NoResult | Result 'r

datatype 'r http_exchange = RequestThrows | Reply nat "'r envelope"

definition STATUS_200 :: nat where
  "STATUS_200 = 200"

definition jsonRpcCommand :: "'a response_scheme http_exchange \<Rightarrow> 'a response_scheme \<Rightarrow> error_code \<times> 'a response_scheme" where
  "jsonRpcCommand ex res =
     (case ex of
        RequestThrows \<Rightarrow> (Some NETWORK_ERROR, res)
      | Reply httpStatus body \<Rightarrow>
          if httpStatus = STATUS_200 then
            (case body of
               EnvelopeThrows \<Rightarrow> (Some NETWORK_ERROR, res)
             | NoResult \<Rightarrow> (Some INTERNAL_NODE_ERROR, res)
             | Result r \<Rightarrow> (interpretResponseStatus (status r), r))
          else (Some INTERNAL_NODE_ERROR, res))"

text \<open>
  The error translation in the words of the specification, a function of whether the
  transport threw and of the status string, to be compared with the three commands.
\<close>

definition errorTranslation_spec :: "bool \<Rightarrow> string \<Rightarrow> error_code" where
  "errorTranslation_spec threw st =
     (if threw then Some NETWORK_ERROR
      else if st = ''BUSY'' then Some NODE_BUSY
      else if st \<noteq> ''OK'' then Some INTERNAL_NODE_ERROR
      else None)"

subsection \<open>Payloads\<close>

text \<open>
  The payload structures are declared in headers that are not part of the sources; the
  proxy only moves them. They are modelled with the fields this file reads or writes.
  A \<^verbatim>\<open>crypto::hash\<close> is its 32 bytes, a \<^verbatim>\<open>blobdata\<close> a string.
\<close>

type_synonym crypto_hash = "8 word list"

type_synonym blobdata = string

type_synonym Transaction = blobdata

definition null_hash :: crypto_hash where
  "null_hash = replicate 32 0"

record block_header_responce =
  hash :: string
  height :: "64 word"
  timestamp :: "64 word"

record get_last_block_header_response = response +
  block_header :: block_header_responce

record get_info_response = response +
  incoming_connections_count :: "64 word"
  outgoing_connections_count :: "64 word"

text \<open>The response to \<^verbatim>\<open>/sendrawtransaction\<close> has the status and nothing else.\<close>

type_synonym send_raw_tx_response = response

type_synonym out_entry = "64 word \<times> string"

type_synonym outs_for_amount = "64 word \<times> out_entry list"

record get_random_outs_response = response +
  outs :: "outs_for_amount list"

record block_complete_entry =
  block :: blobdata
  txs :: "blobdata list"

record get_blocks_fast_response = response +
  blocks :: "block_complete_entry list"
  start_height :: "64 word"

record get_o_indexes_response = response +
  o_indexes :: "64 word list"

record BlockFullInfo = block_complete_entry +
  block_id :: crypto_hash

record query_blocks_response = response +
  items :: "BlockFullInfo list"
  start_height :: "64 word"

text \<open>\<^verbatim>\<open>AUTO_VAL_INIT\<close> and default construction: empty strings and lists, zero numbers.\<close>

definition init_get_last_block_header_response :: get_last_block_header_response where
  "init_get_last_block_header_response =
     \<lparr>status = [], block_header = \<lparr>hash = [], height = 0, timestamp = 0\<rparr>\<rparr>"

definition init_get_info_response :: get_info_response where
  "init_get_info_response =
     \<lparr>status = [], incoming_connections_count = 0, outgoing_connections_count = 0\<rparr>"

definition init_send_raw_tx_response :: send_raw_tx_response where
  "init_send_raw_tx_response = \<lparr>status = []\<rparr>"

definition init_get_random_outs_response :: get_random_outs_response where
  "init_get_random_outs_response = \<lparr>status = [], outs = []\<rparr>"

definition init_get_blocks_fast_response :: get_blocks_fast_response where
  "init_get_blocks_fast_response =
     \<lparr>status = [], blocks = [], get_blocks_fast_response.start_height = 0\<rparr>"

definition init_get_o_indexes_response :: get_o_indexes_response where
  "init_get_o_indexes_response = \<lparr>status = [], o_indexes = []\<rparr>"

definition init_query_blocks_response :: query_blocks_response where
  "init_query_blocks_response =
     \<lparr>status = [], items = [], query_blocks_response.start_height = 0\<rparr>"

subsection \<open>Lifecycle state\<close>

datatype lifecycle = NotInitialized | Initializing | Initialized | ShuttingDown | ShutDown

definition beginInit :: "lifecycle \<Rightarrow> bool \<times> lifecycle" where
  \<comment> \<open>Modelled from the spec: the class \<^verbatim>\<open>InitState\<close> is not part of the sources.
     \<^verbatim>\<open>beginInit()\<close> succeeds only from NotInitialized/ShutDown, transitioning to
     Initializing, and fails (returning false) otherwise.\<close>
  "beginInit st =
     (if st = NotInitialized \<or> st = ShutDown then (True, Initializing) else (False, st))"

definition endInit :: "lifecycle \<Rightarrow> bool \<times> lifecycle" where
  \<comment> \<open>Modelled from the spec: the class \<^verbatim>\<open>InitState\<close> is not part of the sources.
     \<^verbatim>\<open>endInit()\<close> moves Initializing to Initialized and fails if the state drifted.\<close>
  "endInit st = (if st = Initializing then (True, Initialized) else (False, st))"

definition beginShutdown :: "lifecycle \<Rightarrow> bool \<times> lifecycle" where
  \<comment> \<open>Modelled from the spec: the class \<^verbatim>\<open>InitState\<close> is not part of the sources.
     \<^verbatim>\<open>beginShutdown()\<close> succeeds only when Initialized (moving to ShuttingDown),
     failing otherwise.\<close>
  "beginShutdown st = (if st = Initialized then (True, ShuttingDown) else (False, st))"

definition endShutdown :: "lifecycle \<Rightarrow> bool \<times> lifecycle" where
  \<comment> \<open>Modelled from the spec: the class \<^verbatim>\<open>InitState\<close> is not part of the sources.
     \<^verbatim>\<open>endShutdown()\<close> moves ShuttingDown to ShutDown.\<close>
  "endShutdown st = (if st = ShuttingDown then (True, ShutDown) else (False, st))"

definition initialized :: "lifecycle \<Rightarrow> bool" where
  \<comment> \<open>Modelled from the spec: the class \<^verbatim>\<open>InitState\<close> is not part of the sources.
     An operation is rejected if the lifecycle state is not Initialized.\<close>
  "initialized st = (st = Initialized)"

subsection \<open>The proxy object\<close>

text \<open>
  The methods of \<^verbatim>\<open>INodeObserver\<close> that the proxy notifies, with their argument; a
  callback is known by a number; a reference to storage of the caller is an address.
\<close>

datatype notification =
  peerCountUpdated "64 word"
| lastKnownBlockHeightUpdated "64 word"
| localBlockchainUpdated "64 word"

type_synonym callback = nat

type_synonym reference = nat

text \<open>The handlers that the public operations bind and post to \<^verbatim>\<open>m_ioService\<close>.\<close>

datatype task =
  Bind_doRelayTransaction Transaction callback
| Bind_doGetRandomOutsByAmounts "64 word list" "64 word" reference callback
| Bind_doGetNewBlocks "crypto_hash list" reference reference callback
| Bind_doGetTransactionOutsGlobalIndices crypto_hash reference callback
| Bind_doQueryBlocks "crypto_hash list" "64 word" reference reference callback

text \<open>
  The deadline timer has no outstanding wait, an outstanding wait, or a wait that is over
  and whose handler has not been called yet: one whose deadline was reached, whose
  handler will be called with success, or one that was cancelled, whose handler will be
  called with \<^verbatim>\<open>boost::asio::error::operation_aborted\<close>.
\<close>

datatype timer_wait = NoWait | Waiting | Expired | Cancelled

datatype asio_error = asio_success | operation_aborted

record NodeRpcProxy =
  m_rpcTimeout :: nat
  m_pullTimer :: timer_wait
  m_pullInterval :: nat
  m_nodeHost :: string
  m_nodePort :: "16 word"
  m_lastLocalBlockTimestamp :: "64 word"
  m_ioService_stopped :: bool
  m_ioService_posted :: "task list"
  m_peerCount :: "64 word"
  m_nodeHeight :: "64 word"
  m_networkHeight :: "64 word"
  m_lastKnowHash :: crypto_hash
  m_initState :: lifecycle
  m_workerThread_joinable :: bool
  m_httpClient :: "string list"
  m_observerManager :: "notification list"
  callbacks :: "(callback \<times> error_code) list"

definition resetInternalState :: "NodeRpcProxy \<Rightarrow> NodeRpcProxy" where
  "resetInternalState s =
     s\<lparr>m_ioService_stopped := False,
       m_peerCount := 0,
       m_nodeHeight := 0,
       m_networkHeight := 0,
       m_lastKnowHash := null_hash\<rparr>"

definition newNodeRpcProxy :: "string \<Rightarrow> 16 word \<Rightarrow> NodeRpcProxy" where
  "newNodeRpcProxy nodeHost nodePort =
     resetInternalState
       \<lparr>m_rpcTimeout = 10000,
        m_pullTimer = NoWait,
        m_pullInterval = 10000,
        m_nodeHost = nodeHost,
        m_nodePort = nodePort,
        m_lastLocalBlockTimestamp = 0,
        m_ioService_stopped = False,
        m_ioService_posted = [],
        m_peerCount = 0,
        m_nodeHeight = 0,
        m_networkHeight = 0,
        m_lastKnowHash = null_hash,
        m_initState = NotInitialized,
        m_workerThread_joinable = False,
        m_httpClient = [],
        m_observerManager = [],
        callbacks = []\<rparr>"

definition notify :: "notification \<Rightarrow> NodeRpcProxy \<Rightarrow> NodeRpcProxy" where
  "notify n s = s\<lparr>m_observerManager := m_observerManager s @ [n]\<rparr>"

definition invoke :: "callback \<Rightarrow> error_code \<Rightarrow> NodeRpcProxy \<Rightarrow> NodeRpcProxy" where
  "invoke cb ec s = s\<lparr>callbacks := callbacks s @ [(cb, ec)]\<rparr>"

definition issue :: "string \<Rightarrow> NodeRpcProxy \<Rightarrow> NodeRpcProxy" where
  "issue command s = s\<lparr>m_httpClient := m_httpClient s @ [command]\<rparr>"

definition post :: "task \<Rightarrow> NodeRpcProxy \<Rightarrow> NodeRpcProxy" where
  "post t s = s\<lparr>m_ioService_posted := m_ioService_posted s @ [t]\<rparr>"

subsection \<open>Initialization and shutdown\<close>

definition init :: "callback \<Rightarrow> NodeRpcProxy \<Rightarrow> NodeRpcProxy" where
  "init cb s =
     (case beginInit (m_initState s) of
        (False, _) \<Rightarrow> invoke cb (Some ALREADY_INITIALIZED) s
      | (True, st) \<Rightarrow>
          (resetInternalState (s\<lparr>m_initState := st\<rparr>))\<lparr>m_workerThread_joinable := True\<rparr>)"

text \<open>
  \<^verbatim>\<open>cancel\<close> ends an outstanding wait. A wait whose deadline was already reached can no
  longer be cancelled: its handler is still called with success.
\<close>

definition cancel :: "timer_wait \<Rightarrow> timer_wait" where
  "cancel w =
     (case w of
        Waiting \<Rightarrow> Cancelled
      | NoWait \<Rightarrow> NoWait
      | Expired \<Rightarrow> Expired
      | Cancelled \<Rightarrow> Cancelled)"

definition shutdown :: "NodeRpcProxy \<Rightarrow> bool \<times> NodeRpcProxy" where
  "shutdown s =
     (case beginShutdown (m_initState s) of
        (False, _) \<Rightarrow> (False, s)
      | (True, st) \<Rightarrow>
          (let s1 = s\<lparr>m_initState := st\<rparr>;
               s2 = s1\<lparr>m_pullTimer := cancel (m_pullTimer s1)\<rparr>;
               s3 = s2\<lparr>m_ioService_stopped := True\<rparr>
           in if m_workerThread_joinable s3
              then (True, s3\<lparr>m_workerThread_joinable := False,
                             m_initState := snd (endShutdown (m_initState s3))\<rparr>)
              else (True, s3)))"

subsection \<open>Status poller\<close>

text \<open>
  \<^verbatim>\<open>parse_hash256\<close> is declared in \<^verbatim>\<open>cryptonote_format_utils.h\<close>, which is not part of
  the sources: it is a parameter of the poller, \<open>None\<close> where it returns false.
\<close>

type_synonym hash_parser = "string \<Rightarrow> crypto_hash option"

definition updatePeerCount :: "get_info_response invoke_outcome \<Rightarrow> NodeRpcProxy \<Rightarrow> NodeRpcProxy" where
  "updatePeerCount info s =
     (case jsonCommand info init_get_info_response of
        (ec, rsp) \<Rightarrow>
          (let s1 = issue ''/getinfo'' s in
           if ec = None then
             (let peerCount = incoming_connections_count rsp + outgoing_connections_count rsp in
              if peerCount \<noteq> m_peerCount s1
              then notify (peerCountUpdated peerCount) (s1\<lparr>m_peerCount := peerCount\<rparr>)
              else s1)
           else s1))"

definition updateNodeStatus ::
  "hash_parser \<Rightarrow> get_last_block_header_response http_exchange \<Rightarrow>
   get_info_response invoke_outcome \<Rightarrow> NodeRpcProxy \<Rightarrow> NodeRpcProxy" where
  "updateNodeStatus parse_hash256 header info s =
     (case jsonRpcCommand header init_get_last_block_header_response of
        (ec, rsp) \<Rightarrow>
          (let s1 = issue ''getlastblockheader'' s in
           if ec = None then
             (case parse_hash256 (hash (block_header rsp)) of
                None \<Rightarrow> s1
              | Some blockHash \<Rightarrow>
                  if blockHash \<noteq> m_lastKnowHash s1 then
                    (let s2 = s1\<lparr>m_lastKnowHash := blockHash\<rparr>;
                         s3 = s2\<lparr>m_nodeHeight := height (block_header rsp)\<rparr>;
                         s4 = s3\<lparr>m_lastLocalBlockTimestamp := timestamp (block_header rsp)\<rparr>;
                         s5 = s4\<lparr>m_networkHeight := m_nodeHeight s4\<rparr>;
                         s6 = notify (lastKnownBlockHeightUpdated (m_networkHeight s5)) s5;
                         s7 = notify (localBlockchainUpdated (m_nodeHeight s6)) s6
                     in updatePeerCount info s7)
                  else updatePeerCount info s1)
           else updatePeerCount info s1))"

definition pullNodeStatusAndScheduleTheNext ::
  "hash_parser \<Rightarrow> get_last_block_header_response http_exchange \<Rightarrow>
   get_info_response invoke_outcome \<Rightarrow> NodeRpcProxy \<Rightarrow> NodeRpcProxy" where
  "pullNodeStatusAndScheduleTheNext parse_hash256 header info s =
     (updateNodeStatus parse_hash256 header info s)\<lparr>m_pullTimer := Waiting\<rparr>"

text \<open>The handler given to \<^verbatim>\<open>m_pullTimer.async_wait\<close>.\<close>

definition pullTimer_handler ::
  "asio_error \<Rightarrow> hash_parser \<Rightarrow> get_last_block_header_response http_exchange \<Rightarrow>
   get_info_response invoke_outcome \<Rightarrow> NodeRpcProxy \<Rightarrow> NodeRpcProxy" where
  "pullTimer_handler ec parse_hash256 header info s =
     (if ec \<noteq> operation_aborted
      then pullNodeStatusAndScheduleTheNext parse_hash256 header info s
      else s)"

text \<open>
  The worker thread up to its event loop, run without interference. The loop itself is
  part of the interleaving below.
\<close>

definition workerThread ::
  "hash_parser \<Rightarrow> get_last_block_header_response http_exchange \<Rightarrow>
   get_info_response invoke_outcome \<Rightarrow> callback \<Rightarrow> NodeRpcProxy \<Rightarrow> NodeRpcProxy" where
  "workerThread parse_hash256 header info initialized_callback s =
     (case endInit (m_initState s) of
        (False, _) \<Rightarrow> s
      | (True, st) \<Rightarrow>
          pullNodeStatusAndScheduleTheNext parse_hash256 header info
            (invoke initialized_callback None (s\<lparr>m_initState := st\<rparr>)))"

subsection \<open>The worker thread and a shutdown, interleaved\<close>

text \<open>
  \<^verbatim>\<open>shutdown\<close> runs on the thread of its caller while the worker thread runs its loop, and
  there is no lock between them. The interleaving is a step relation on the proxy together
  with the place where each thread stands; a step is one statement of one thread.

  The worker stands at the test of its loop (line 172), inside a fire before
  \<^verbatim>\<open>updateNodeStatus\<close> (line 178), inside a fire before the timer is armed again (lines
  180-181), or it has left the loop. The caller of \<^verbatim>\<open>shutdown\<close> stands outside, or before
  \<^verbatim>\<open>m_pullTimer.cancel\<close> (line 149), \<^verbatim>\<open>m_ioService.stop\<close> (line 150) or the join (line 151).
\<close>

datatype worker_place = AtLoop | Firing | Rearming | Exited

datatype caller_place = Outside | Cancelling | Stopping | Joining

record threads =
  proxy :: NodeRpcProxy
  worker :: worker_place
  caller :: caller_place


text \<open>
  The handler of the wait is called with an error code (lines 181-185): the wait is
  gone, and the handler enters \<^verbatim>\<open>pullNodeStatusAndScheduleTheNext\<close> unless the code is
  \<^verbatim>\<open>operation_aborted\<close>.
\<close>

definition handler_called :: "asio_error \<Rightarrow> threads \<Rightarrow> threads" where
  "handler_called ec t =
     (let t1 = t\<lparr>proxy := (proxy t)\<lparr>m_pullTimer := NoWait\<rparr>\<rparr> in
      if ec \<noteq> operation_aborted then t1\<lparr>worker := Firing\<rparr> else t1)"

text \<open>
  One turn of the loop of lines 172-174: the worker leaves when the io service is
  stopped; otherwise \<^verbatim>\<open>run_one\<close> calls the handler of a wait that is over, and blocks
  when there is none. The handlers of posted operations touch neither the timer nor the
  io service and are left out.
\<close>

definition worker_loop :: "threads \<Rightarrow> threads" where
  "worker_loop t =
     (if worker t \<noteq> AtLoop then t
      else if m_ioService_stopped (proxy t) then t\<lparr>worker := Exited\<rparr>
      else (case m_pullTimer (proxy t) of
              Expired \<Rightarrow> handler_called asio_success t
            | Cancelled \<Rightarrow> handler_called operation_aborted t
            | NoWait \<Rightarrow> t
            | Waiting \<Rightarrow> t))"

text \<open>Line 178 and lines 180-181 of \<^verbatim>\<open>pullNodeStatusAndScheduleTheNext\<close>.\<close>

definition worker_polls ::
  "hash_parser \<Rightarrow> get_last_block_header_response http_exchange \<Rightarrow>
   get_info_response invoke_outcome \<Rightarrow> threads \<Rightarrow> threads" where
  "worker_polls parse_hash256 header info t =
     (if worker t = Firing
      then t\<lparr>proxy := updateNodeStatus parse_hash256 header info (proxy t), worker := Rearming\<rparr>
      else t)"

definition worker_rearms :: "threads \<Rightarrow> threads" where
  "worker_rearms t =
     (if worker t = Rearming
      then t\<lparr>proxy := (proxy t)\<lparr>m_pullTimer := Waiting\<rparr>, worker := AtLoop\<rparr>
      else t)"

text \<open>
  The statements of \<^verbatim>\<open>shutdown\<close>: lines 144-146, 149, 150 and 151-156. A call that fails at
  \<^verbatim>\<open>beginShutdown\<close> returns at once. The join waits until the worker has left its loop.
\<close>

definition shutdown_begins :: "threads \<Rightarrow> threads" where
  "shutdown_begins t =
     (if caller t \<noteq> Outside then t
      else (case beginShutdown (m_initState (proxy t)) of
              (False, _) \<Rightarrow> t
            | (True, st) \<Rightarrow> t\<lparr>proxy := (proxy t)\<lparr>m_initState := st\<rparr>, caller := Cancelling\<rparr>))"

definition shutdown_cancels :: "threads \<Rightarrow> threads" where
  "shutdown_cancels t =
     (if caller t = Cancelling
      then t\<lparr>proxy := (proxy t)\<lparr>m_pullTimer := cancel (m_pullTimer (proxy t))\<rparr>,
             caller := Stopping\<rparr>
      else t)"

definition shutdown_stops :: "threads \<Rightarrow> threads" where
  "shutdown_stops t =
     (if caller t = Stopping
      then t\<lparr>proxy := (proxy t)\<lparr>m_ioService_stopped := True\<rparr>, caller := Joining\<rparr>
      else t)"

definition shutdown_joins :: "threads \<Rightarrow> threads" where
  "shutdown_joins t =
     (if caller t \<noteq> Joining then t
      else if m_workerThread_joinable (proxy t) then
        (if worker t = Exited
         then t\<lparr>proxy := (proxy t)\<lparr>m_workerThread_joinable := False,
                  m_initState := snd (endShutdown (m_initState (proxy t)))\<rparr>,
                caller := Outside\<rparr>
         else t)
      else t\<lparr>caller := Outside\<rparr>)"





text \<open>
  An instance of the hash parser for concrete evaluation: exactly 64 hexadecimal digits,
  two for each byte.
\<close>

definition hex_digit :: "char \<Rightarrow> 8 word option" where
  "hex_digit c =
     (let n = of_char c :: nat in
      if 48 \<le> n \<and> n \<le> 57 then Some (of_nat (n - 48))
      else if 97 \<le> n \<and> n \<le> 102 then Some (of_nat (n - 87))
      else if 65 \<le> n \<and> n \<le> 70 then Some (of_nat (n - 55))
      else None)"

fun from_hex :: "string \<Rightarrow> 8 word list option" where
  "from_hex [] = Some []"
| "from_hex [c] = None"
| "from_hex (c # d # cs) =
     (case (hex_digit c, hex_digit d, from_hex cs) of
        (Some h, Some l, Some bs) \<Rightarrow> Some ((16 * h + l) # bs)
      | _ \<Rightarrow> None)"

definition hex_hash_parser :: hash_parser where
  "hex_hash_parser str =
     (case from_hex str of
        Some bs \<Rightarrow> if length bs = 32 then Some bs else None
      | None \<Rightarrow> None)"

subsection \<open>Asynchronous operations\<close>

text \<open>
  A public operation runs on the thread of the caller: it rejects, or binds its arguments
  and posts the handler. The output storage of the caller is passed by reference.
\<close>

definition relayTransaction :: "Transaction \<Rightarrow> callback \<Rightarrow> NodeRpcProxy \<Rightarrow> NodeRpcProxy" where
  "relayTransaction transaction cb s =
     (if \<not> initialized (m_initState s) then invoke cb (Some NOT_INITIALIZED) s
      else post (Bind_doRelayTransaction transaction cb) s)"

definition getRandomOutsByAmounts ::
  "64 word list \<Rightarrow> 64 word \<Rightarrow> reference \<Rightarrow> callback \<Rightarrow> NodeRpcProxy \<Rightarrow> NodeRpcProxy" where
  "getRandomOutsByAmounts amounts outsCount outs' cb s =
     (if \<not> initialized (m_initState s) then invoke cb (Some NOT_INITIALIZED) s
      else post (Bind_doGetRandomOutsByAmounts amounts outsCount outs' cb) s)"

definition getNewBlocks ::
  "crypto_hash list \<Rightarrow> reference \<Rightarrow> reference \<Rightarrow> callback \<Rightarrow> NodeRpcProxy \<Rightarrow> NodeRpcProxy" where
  "getNewBlocks knownBlockIds newBlocks startHeight cb s =
     (if \<not> initialized (m_initState s) then invoke cb (Some NOT_INITIALIZED) s
      else post (Bind_doGetNewBlocks knownBlockIds newBlocks startHeight cb) s)"

definition getTransactionOutsGlobalIndices ::
  "crypto_hash \<Rightarrow> reference \<Rightarrow> callback \<Rightarrow> NodeRpcProxy \<Rightarrow> NodeRpcProxy" where
  "getTransactionOutsGlobalIndices transactionHash outsGlobalIndices cb s =
     (if \<not> initialized (m_initState s) then invoke cb (Some NOT_INITIALIZED) s
      else post (Bind_doGetTransactionOutsGlobalIndices transactionHash outsGlobalIndices cb) s)"

definition queryBlocks ::
  "crypto_hash list \<Rightarrow> 64 word \<Rightarrow> reference \<Rightarrow> reference \<Rightarrow> callback \<Rightarrow>
   NodeRpcProxy \<Rightarrow> NodeRpcProxy" where
  "queryBlocks knownBlockIds timestamp' newBlocks startHeight cb s =
     (if \<not> initialized (m_initState s) then invoke cb (Some NOT_INITIALIZED) s
      else post (Bind_doQueryBlocks knownBlockIds timestamp' newBlocks startHeight cb) s)"

text \<open>
  \<^verbatim>\<open>getPoolSymmetricDifference\<close> writes \<^verbatim>\<open>is_bc_actual\<close> and leaves the two vectors as
  they are; the function returns the three outputs with the proxy.
\<close>

definition getPoolSymmetricDifference ::
  "crypto_hash list \<Rightarrow> crypto_hash \<Rightarrow> bool \<Rightarrow> Transaction list \<Rightarrow> crypto_hash list \<Rightarrow>
   callback \<Rightarrow> NodeRpcProxy \<Rightarrow> (bool \<times> Transaction list \<times> crypto_hash list) \<times> NodeRpcProxy" where
  "getPoolSymmetricDifference known_pool_tx_ids known_block_id is_bc_actual new_txs
       deleted_tx_ids cb s =
     ((True, new_txs, deleted_tx_ids), invoke cb None s)"

text \<open>
  A posted handler runs on the worker thread. It takes the answer of the daemon and the
  current contents of the caller's output storage, and returns the new contents with the
  proxy.
\<close>

definition doRelayTransaction ::
  "send_raw_tx_response invoke_outcome \<Rightarrow> Transaction \<Rightarrow> callback \<Rightarrow> NodeRpcProxy \<Rightarrow>
   NodeRpcProxy" where
  "doRelayTransaction answer transaction cb s =
     (case jsonCommand answer init_send_raw_tx_response of
        (ec, rsp) \<Rightarrow> invoke cb ec (issue ''/sendrawtransaction'' s))"

definition doGetRandomOutsByAmounts ::
  "get_random_outs_response invoke_outcome \<Rightarrow> 64 word list \<Rightarrow> 64 word \<Rightarrow>
   outs_for_amount list \<Rightarrow> callback \<Rightarrow> NodeRpcProxy \<Rightarrow> outs_for_amount list \<times> NodeRpcProxy" where
  "doGetRandomOutsByAmounts answer amounts outsCount outs' cb s =
     (case binaryCommand answer init_get_random_outs_response of
        (ec, rsp) \<Rightarrow>
          (let s1 = issue ''/getrandom_outs.bin'' s in
           if ec = None then (outs rsp, invoke cb ec s1)
           else (outs', invoke cb ec s1)))"

definition doGetNewBlocks ::
  "get_blocks_fast_response invoke_outcome \<Rightarrow> crypto_hash list \<Rightarrow>
   block_complete_entry list \<Rightarrow> 64 word \<Rightarrow> callback \<Rightarrow> NodeRpcProxy \<Rightarrow>
   (block_complete_entry list \<times> 64 word) \<times> NodeRpcProxy" where
  "doGetNewBlocks answer knownBlockIds newBlocks startHeight cb s =
     (case binaryCommand answer init_get_blocks_fast_response of
        (ec, rsp) \<Rightarrow>
          (let s1 = issue ''/getblocks.bin'' s in
           if ec = None
           then ((blocks rsp, get_blocks_fast_response.start_height rsp), invoke cb ec s1)
           else ((newBlocks, startHeight), invoke cb ec s1)))"

definition doGetTransactionOutsGlobalIndices ::
  "get_o_indexes_response invoke_outcome \<Rightarrow> crypto_hash \<Rightarrow> 64 word list \<Rightarrow> callback \<Rightarrow>
   NodeRpcProxy \<Rightarrow> 64 word list \<times> NodeRpcProxy" where
  "doGetTransactionOutsGlobalIndices answer transactionHash outsGlobalIndices cb s =
     (case binaryCommand answer init_get_o_indexes_response of
        (ec, rsp) \<Rightarrow>
          (let s1 = issue ''/get_o_indexes.bin'' s in
           if ec = None then (o_indexes rsp, invoke cb ec s1)
           else (outsGlobalIndices, invoke cb ec s1)))"

record BlockCompleteEntry =
  blockHash :: crypto_hash
  block :: blobdata
  txs :: "blobdata list"

text \<open>The loop of \<^verbatim>\<open>doQueryBlocks\<close> over \<^verbatim>\<open>rsp.items\<close>, one \<^verbatim>\<open>push_back\<close> for each item.\<close>

fun push_back_items :: "BlockFullInfo list \<Rightarrow> BlockCompleteEntry list \<Rightarrow> BlockCompleteEntry list" where
  "push_back_items [] newBlocks = newBlocks"
| "push_back_items (item # rest) newBlocks =
     push_back_items rest
       (newBlocks @
        [\<lparr>blockHash = block_id item,
          BlockCompleteEntry.block = block_complete_entry.block item,
          BlockCompleteEntry.txs = block_complete_entry.txs item\<rparr>])"

definition doQueryBlocks ::
  "query_blocks_response invoke_outcome \<Rightarrow> crypto_hash list \<Rightarrow> 64 word \<Rightarrow>
   BlockCompleteEntry list \<Rightarrow> 64 word \<Rightarrow> callback \<Rightarrow> NodeRpcProxy \<Rightarrow>
   (BlockCompleteEntry list \<times> 64 word) \<times> NodeRpcProxy" where
  "doQueryBlocks answer knownBlockIds timestamp' newBlocks startHeight cb s =
     (case binaryCommand answer init_query_blocks_response of
        (ec, rsp) \<Rightarrow>
          (let s1 = issue ''/queryblocks.bin'' s in
           if ec = None
           then ((push_back_items (items rsp) newBlocks,
                  query_blocks_response.start_height rsp), invoke cb ec s1)
           else ((newBlocks, startHeight), invoke cb ec s1)))"

subsection \<open>Accessors\<close>

definition getPeerCount :: "NodeRpcProxy \<Rightarrow> 64 word" where
  "getPeerCount s = m_peerCount s"

definition getLastLocalBlockHeight :: "NodeRpcProxy \<Rightarrow> 64 word" where
  "getLastLocalBlockHeight s = m_nodeHeight s"

definition getLastKnownBlockHeight :: "NodeRpcProxy \<Rightarrow> 64 word" where
  "getLastKnownBlockHeight s = m_networkHeight s"

definition getLocalBlockCount :: "NodeRpcProxy \<Rightarrow> 64 word" where
  "getLocalBlockCount s = m_nodeHeight s"

definition getKnownBlockCount :: "NodeRpcProxy \<Rightarrow> 64 word" where
  "getKnownBlockCount s = m_networkHeight s"

definition getLastLocalBlockTimestamp :: "NodeRpcProxy \<Rightarrow> 64 word" where
  "getLastLocalBlockTimestamp s = m_lastLocalBlockTimestamp s"

subsection \<open>Observations\<close>

text \<open>
  Projections of the logs, used to state the properties: the notifications that carry a
  height, those that carry a peer count, and the total peer count of a get-info response.
\<close>

fun is_height_notification :: "notification \<Rightarrow> bool" where
  "is_height_notification (peerCountUpdated n) = False"
| "is_height_notification (lastKnownBlockHeightUpdated h) = True"
| "is_height_notification (localBlockchainUpdated h) = True"

definition height_notifications :: "NodeRpcProxy \<Rightarrow> notification list" where
  "height_notifications s = filter is_height_notification (m_observerManager s)"

definition peer_notifications :: "NodeRpcProxy \<Rightarrow> notification list" where
  "peer_notifications s = filter (\<lambda>n. \<not> is_height_notification n) (m_observerManager s)"

definition total_peer_count :: "get_info_response \<Rightarrow> 64 word" where
  "total_peer_count rsp = incoming_connections_count rsp + outgoing_connections_count rsp"

text \<open>The results of \<open>n\<close> calls of \<^verbatim>\<open>shutdown\<close> in a row.\<close>

fun shutdown_calls :: "nat \<Rightarrow> NodeRpcProxy \<Rightarrow> bool list" where
  "shutdown_calls 0 s = []"
| "shutdown_calls (Suc n) s = fst (shutdown s) # shutdown_calls n (snd (shutdown s))"

section \<open>Properties\<close>

subsection \<open>Error translation of the three call shapes\<close>

lemma interpretResponseStatus_spec:
  "interpretResponseStatus st = errorTranslation_spec False st"
  by (auto simp: interpretResponseStatus_def errorTranslation_spec_def
      CORE_RPC_STATUS_OK_def CORE_RPC_STATUS_BUSY_def)

text \<open>
  Claim C1, as stated, fails: a JSON-RPC call that returns without an exception, with an
  HTTP status other than 200, yields \<open>INTERNAL_NODE_ERROR\<close> although every status
  string in sight is "OK"; the JSON call with the same response yields no error.
\<close>

theorem C1_jsonRpc_not_uniform:
  "fst (jsonRpcCommand (Reply 500 (Result \<lparr>status = ''OK''\<rparr>)) \<lparr>status = ''OK''\<rparr>)
     = Some INTERNAL_NODE_ERROR
   \<and> fst (jsonCommand (Returns \<lparr>status = ''OK''\<rparr>) \<lparr>status = ''OK''\<rparr>) = None
   \<and> fst (binaryCommand (Returns \<lparr>status = ''OK''\<rparr>) \<lparr>status = ''OK''\<rparr>) = None
   \<and> errorTranslation_spec False ''OK'' = None"
  by (simp add: jsonRpcCommand_def jsonCommand_def binaryCommand_def STATUS_200_def
      interpretResponseStatus_def errorTranslation_spec_def
      CORE_RPC_STATUS_OK_def CORE_RPC_STATUS_BUSY_def)

text \<open>
  Claim C1, amended: the binary and the JSON command, and the JSON-RPC command whenever
  the HTTP status is 200 and the typed result is extracted, translate by the same
  function: an exception gives \<open>NETWORK_ERROR\<close>, the status "BUSY" gives \<open>NODE_BUSY\<close>,
  any status other than "OK" gives \<open>INTERNAL_NODE_ERROR\<close> and "OK" gives no error. A
  JSON-RPC call that throws gives \<open>NETWORK_ERROR\<close>; one that returns with an HTTP status
  other than 200, or without a result in the envelope, gives \<open>INTERNAL_NODE_ERROR\<close>
  whatever the status string.
\<close>

theorem C1_error_translation:
  "fst (binaryCommand Throws res) = errorTranslation_spec True st
   \<and> fst (binaryCommand (Returns r) res) = errorTranslation_spec False (status r)
   \<and> fst (jsonCommand Throws res) = errorTranslation_spec True st
   \<and> fst (jsonCommand (Returns r) res) = errorTranslation_spec False (status r)
   \<and> fst (jsonRpcCommand RequestThrows res) = errorTranslation_spec True st
   \<and> fst (jsonRpcCommand (Reply 200 EnvelopeThrows) res) = errorTranslation_spec True st
   \<and> fst (jsonRpcCommand (Reply 200 (Result r)) res) = errorTranslation_spec False (status r)
   \<and> fst (jsonRpcCommand (Reply 200 NoResult) res) = Some INTERNAL_NODE_ERROR
   \<and> (httpStatus \<noteq> 200 \<longrightarrow>
        fst (jsonRpcCommand (Reply httpStatus body) res) = Some INTERNAL_NODE_ERROR)
   \<and> errorTranslation_spec True st = Some NETWORK_ERROR
   \<and> errorTranslation_spec False ''BUSY'' = Some NODE_BUSY
   \<and> errorTranslation_spec False ''OK'' = None
   \<and> (st \<noteq> ''OK'' \<and> st \<noteq> ''BUSY'' \<longrightarrow>
        errorTranslation_spec False st = Some INTERNAL_NODE_ERROR)"
  by (simp add: binaryCommand_def jsonCommand_def jsonRpcCommand_def STATUS_200_def
      interpretResponseStatus_spec) (simp add: errorTranslation_spec_def)

theorem C1_error_translation_witness:
  "(404::nat) \<noteq> 200
   \<and> fst (jsonRpcCommand (Reply 404 (Result \<lparr>status = ''OK''\<rparr>)) \<lparr>status = ''''\<rparr>)
       = Some INTERNAL_NODE_ERROR
   \<and> ''Failed'' \<noteq> ''OK'' \<and> ''Failed'' \<noteq> ''BUSY''
   \<and> fst (binaryCommand (Returns \<lparr>status = ''Failed''\<rparr>) \<lparr>status = ''''\<rparr>)
       = Some INTERNAL_NODE_ERROR"
  using C1_error_translation [of "\<lparr>status = ''''\<rparr>" "''Failed''" "\<lparr>status = ''Failed''\<rparr>" 404
      "Result \<lparr>status = ''OK''\<rparr>"]
  by simp

lemmas dispatch_defs = binaryCommand_def jsonCommand_def jsonRpcCommand_def STATUS_200_def
  interpretResponseStatus_def CORE_RPC_STATUS_OK_def CORE_RPC_STATUS_BUSY_def

lemmas init_defs = init_get_last_block_header_response_def init_get_info_response_def
  init_send_raw_tx_response_def init_get_random_outs_response_def
  init_get_blocks_fast_response_def init_get_o_indexes_response_def
  init_query_blocks_response_def

lemmas log_defs = invoke_def issue_def post_def notify_def

subsection \<open>Operations called before initialization\<close>

text \<open>
  Claim C2, as stated, fails for \<^verbatim>\<open>getPoolSymmetricDifference\<close>: on a proxy that was
  never initialized it invokes the callback with no error.
\<close>

theorem C2_getPoolSymmetricDifference_not_rejected:
  "m_initState (newNodeRpcProxy ''localhost'' 8081) = NotInitialized
   \<and> callbacks (snd (getPoolSymmetricDifference [] null_hash False [] [] 7
        (newNodeRpcProxy ''localhost'' 8081))) = [(7, None)]"
  by (simp add: getPoolSymmetricDifference_def newNodeRpcProxy_def resetInternalState_def
      invoke_def)

text \<open>
  Claim C2, amended: \<^verbatim>\<open>relayTransaction\<close>, \<^verbatim>\<open>getRandomOutsByAmounts\<close>, \<^verbatim>\<open>getNewBlocks\<close>,
  \<^verbatim>\<open>getTransactionOutsGlobalIndices\<close> and \<^verbatim>\<open>queryBlocks\<close>, called while the lifecycle
  state is not Initialized, invoke the callback once with \<open>NOT_INITIALIZED\<close> and change
  nothing else: no command is issued on the transport and nothing is posted to the
  background context. \<^verbatim>\<open>getPoolSymmetricDifference\<close> does not look at the lifecycle state:
  in every state it sets \<^verbatim>\<open>is_bc_actual\<close>, invokes the callback with no error, and likewise
  issues no command and posts nothing.
\<close>

theorem C2_not_initialized:
  "(m_initState s \<noteq> Initialized \<longrightarrow>
      relayTransaction transaction cb s
        = s\<lparr>callbacks := callbacks s @ [(cb, Some NOT_INITIALIZED)]\<rparr>
    \<and> getRandomOutsByAmounts amounts outsCount outs' cb s
        = s\<lparr>callbacks := callbacks s @ [(cb, Some NOT_INITIALIZED)]\<rparr>
    \<and> getNewBlocks knownBlockIds newBlocks startHeight cb s
        = s\<lparr>callbacks := callbacks s @ [(cb, Some NOT_INITIALIZED)]\<rparr>
    \<and> getTransactionOutsGlobalIndices transactionHash outsGlobalIndices cb s
        = s\<lparr>callbacks := callbacks s @ [(cb, Some NOT_INITIALIZED)]\<rparr>
    \<and> queryBlocks knownBlockIds timestamp' newBlocks startHeight cb s
        = s\<lparr>callbacks := callbacks s @ [(cb, Some NOT_INITIALIZED)]\<rparr>)
   \<and> getPoolSymmetricDifference known_pool_tx_ids known_block_id is_bc_actual new_txs
        deleted_tx_ids cb s
        = ((True, new_txs, deleted_tx_ids), s\<lparr>callbacks := callbacks s @ [(cb, None)]\<rparr>)"
  by (simp add: relayTransaction_def getRandomOutsByAmounts_def getNewBlocks_def
      getTransactionOutsGlobalIndices_def queryBlocks_def getPoolSymmetricDifference_def
      initialized_def invoke_def)

text \<open>
  The amended claim C2 at a proxy that was constructed and never initialized.
\<close>

theorem C2_not_initialized_witness:
  "m_initState (newNodeRpcProxy ''localhost'' 8081) \<noteq> Initialized
   \<and> callbacks (relayTransaction ''tx'' 7 (newNodeRpcProxy ''localhost'' 8081))
       = [(7, Some NOT_INITIALIZED)]
   \<and> m_httpClient (relayTransaction ''tx'' 7 (newNodeRpcProxy ''localhost'' 8081)) = []
   \<and> m_ioService_posted (queryBlocks [] 0 1 2 7 (newNodeRpcProxy ''localhost'' 8081)) = []"
  using C2_not_initialized [where s = "newNodeRpcProxy ''localhost'' 8081" and cb = 7
      and transaction = "''tx''" and knownBlockIds = "[]" and timestamp' = 0
      and newBlocks = 1 and startHeight = 2]
  by (simp add: newNodeRpcProxy_def resetInternalState_def)

subsection \<open>Status poller\<close>

lemma updatePeerCount_error:
  "fst (jsonCommand info init_get_info_response) \<noteq> None \<Longrightarrow>
   updatePeerCount info s = issue ''/getinfo'' s"
  by (cases "jsonCommand info init_get_info_response") (auto simp: updatePeerCount_def)

lemma updatePeerCount_frame:
  "m_nodeHeight (updatePeerCount info s) = m_nodeHeight s"
  "m_networkHeight (updatePeerCount info s) = m_networkHeight s"
  "m_lastKnowHash (updatePeerCount info s) = m_lastKnowHash s"
  "m_lastLocalBlockTimestamp (updatePeerCount info s) = m_lastLocalBlockTimestamp s"
  "callbacks (updatePeerCount info s) = callbacks s"
  "m_ioService_posted (updatePeerCount info s) = m_ioService_posted s"
  "m_pullTimer (updatePeerCount info s) = m_pullTimer s"
  "m_initState (updatePeerCount info s) = m_initState s"
  "m_httpClient (updatePeerCount info s) = m_httpClient s @ [''/getinfo'']"
  "height_notifications (updatePeerCount info s) = height_notifications s"
  by (simp_all add: updatePeerCount_def log_defs Let_def height_notifications_def
      split: prod.splits)

lemma updatePeerCount_peer_notifications:
  "jsonCommand info init_get_info_response = (ec', rsp') \<Longrightarrow>
   peer_notifications (updatePeerCount info s) =
     peer_notifications s @
     (if ec' = None \<and> total_peer_count rsp' \<noteq> m_peerCount s
      then [peerCountUpdated (total_peer_count rsp')] else [])"
  by (simp add: updatePeerCount_def log_defs Let_def peer_notifications_def total_peer_count_def)

lemma updateNodeStatus_header_error:
  "fst (jsonRpcCommand header init_get_last_block_header_response) \<noteq> None \<Longrightarrow>
   updateNodeStatus parse_hash256 header info s
     = updatePeerCount info (issue ''getlastblockheader'' s)"
  by (cases "jsonRpcCommand header init_get_last_block_header_response")
    (auto simp: updateNodeStatus_def)

lemma updateNodeStatus_unparsed:
  "jsonRpcCommand header init_get_last_block_header_response = (None, rsp) \<Longrightarrow>
   parse_hash256 (hash (block_header rsp)) = None \<Longrightarrow>
   updateNodeStatus parse_hash256 header info s = issue ''getlastblockheader'' s"
  by (simp add: updateNodeStatus_def)

lemma updateNodeStatus_same_hash:
  "jsonRpcCommand header init_get_last_block_header_response = (None, rsp) \<Longrightarrow>
   parse_hash256 (hash (block_header rsp)) = Some (m_lastKnowHash s) \<Longrightarrow>
   updateNodeStatus parse_hash256 header info s
     = updatePeerCount info (issue ''getlastblockheader'' s)"
  by (simp add: updateNodeStatus_def issue_def)

lemma updateNodeStatus_new_hash:
  "jsonRpcCommand header init_get_last_block_header_response = (None, rsp) \<Longrightarrow>
   parse_hash256 (hash (block_header rsp)) = Some h \<Longrightarrow> h \<noteq> m_lastKnowHash s \<Longrightarrow>
   updateNodeStatus parse_hash256 header info s
     = updatePeerCount info
         (notify (localBlockchainUpdated (height (block_header rsp)))
           (notify (lastKnownBlockHeightUpdated (height (block_header rsp)))
             ((issue ''getlastblockheader'' s)
                \<lparr>m_lastKnowHash := h,
                 m_nodeHeight := height (block_header rsp),
                 m_lastLocalBlockTimestamp := timestamp (block_header rsp),
                 m_networkHeight := height (block_header rsp)\<rparr>)))"
  by (simp add: updateNodeStatus_def log_defs Let_def)

lemma issue_frame:
  "m_nodeHeight (issue c s) = m_nodeHeight s"
  "m_networkHeight (issue c s) = m_networkHeight s"
  "m_lastKnowHash (issue c s) = m_lastKnowHash s"
  "m_lastLocalBlockTimestamp (issue c s) = m_lastLocalBlockTimestamp s"
  "m_peerCount (issue c s) = m_peerCount s"
  "callbacks (issue c s) = callbacks s"
  "m_ioService_posted (issue c s) = m_ioService_posted s"
  "m_pullTimer (issue c s) = m_pullTimer s"
  "m_initState (issue c s) = m_initState s"
  "m_observerManager (issue c s) = m_observerManager s"
  "height_notifications (issue c s) = height_notifications s"
  "peer_notifications (issue c s) = peer_notifications s"
  by (simp_all add: issue_def height_notifications_def peer_notifications_def)

lemma updateNodeStatus_callbacks:
  "callbacks (updateNodeStatus parse_hash256 header info s) = callbacks s"
  by (simp add: updateNodeStatus_def updatePeerCount_frame log_defs Let_def
      split: prod.splits option.splits)

lemma updateNodeStatus_header_error_fields:
  assumes "fst (jsonRpcCommand header init_get_last_block_header_response) \<noteq> None"
  shows "m_nodeHeight (updateNodeStatus parse_hash256 header info s) = m_nodeHeight s"
    and "m_networkHeight (updateNodeStatus parse_hash256 header info s) = m_networkHeight s"
    and "m_lastKnowHash (updateNodeStatus parse_hash256 header info s) = m_lastKnowHash s"
    and "m_lastLocalBlockTimestamp (updateNodeStatus parse_hash256 header info s)
           = m_lastLocalBlockTimestamp s"
    and "height_notifications (updateNodeStatus parse_hash256 header info s)
           = height_notifications s"
  by (simp_all add: updateNodeStatus_header_error [OF assms] updatePeerCount_frame issue_frame)

lemma updateNodeStatus_info_error_fields:
  assumes "fst (jsonCommand info init_get_info_response) \<noteq> None"
  shows "m_peerCount (updateNodeStatus parse_hash256 header info s) = m_peerCount s"
    and "peer_notifications (updateNodeStatus parse_hash256 header info s)
           = peer_notifications s"
  by (simp_all add: updateNodeStatus_def updatePeerCount_error [OF assms] Let_def
      issue_def notify_def peer_notifications_def split: prod.splits option.splits)

lemma hex_hash_parser_one:
  "hex_hash_parser ''0000000000000000000000000000000000000000000000000000000000000001''
     = Some (replicate 31 0 @ [1])"
  by code_simp

lemma hex_hash_parser_zz: "hex_hash_parser ''zz'' = None"
  by code_simp

lemma null_hash_not_one: "replicate 31 0 @ [1] \<noteq> null_hash"
  by code_simp

lemma started_proxy:
  "workerThread hex_hash_parser
     (Reply 200 (Result \<lparr>status = ''OK'', block_header =
        \<lparr>hash = ''0000000000000000000000000000000000000000000000000000000000000001'',
         height = 5, timestamp = 1000\<rparr>\<rparr>))
     (Returns \<lparr>status = ''OK'', incoming_connections_count = 1,
        outgoing_connections_count = 2\<rparr>)
     0 (init 0 (newNodeRpcProxy ''localhost'' 8081))
   = \<lparr>m_rpcTimeout = 10000, m_pullTimer = Waiting, m_pullInterval = 10000,
      m_nodeHost = ''localhost'', m_nodePort = 8081, m_lastLocalBlockTimestamp = 1000,
      m_ioService_stopped = False, m_ioService_posted = [], m_peerCount = 3,
      m_nodeHeight = 5, m_networkHeight = 5, m_lastKnowHash = replicate 31 0 @ [1],
      m_initState = Initialized, m_workerThread_joinable = True,
      m_httpClient = [''getlastblockheader'', ''/getinfo''],
      m_observerManager = [lastKnownBlockHeightUpdated 5, localBlockchainUpdated 5,
        peerCountUpdated 3],
      callbacks = [(0, None)]\<rparr>"
  by (simp add: workerThread_def init_def newNodeRpcProxy_def resetInternalState_def
      beginInit_def endInit_def pullNodeStatusAndScheduleTheNext_def updateNodeStatus_def
      updatePeerCount_def dispatch_defs init_defs log_defs
      hex_hash_parser_one null_hash_not_one Let_def)

text \<open>
  Claim C3, as stated, fails: in the first poll of a freshly initialized proxy the
  returned hash differs from the last known one, and two notifications that carry the
  new height are sent, \<^verbatim>\<open>lastKnownBlockHeightUpdated\<close> and \<^verbatim>\<open>localBlockchainUpdated\<close>, not one.
\<close>

theorem C3_two_height_notifications:
  "height_notifications
     (workerThread hex_hash_parser
        (Reply 200 (Result \<lparr>status = ''OK'', block_header =
           \<lparr>hash = ''0000000000000000000000000000000000000000000000000000000000000001'',
            height = 5, timestamp = 1000\<rparr>\<rparr>))
        (Returns \<lparr>status = ''OK'', incoming_connections_count = 0,
                  outgoing_connections_count = 0\<rparr>)
        0 (init 0 (newNodeRpcProxy ''localhost'' 8081)))
     = [lastKnownBlockHeightUpdated 5, localBlockchainUpdated 5]"
  by (simp add: workerThread_def init_def newNodeRpcProxy_def resetInternalState_def
      beginInit_def endInit_def pullNodeStatusAndScheduleTheNext_def updateNodeStatus_def
      updatePeerCount_def dispatch_defs init_defs log_defs height_notifications_def
      hex_hash_parser_one null_hash_not_one Let_def)

text \<open>
  Claim C3, amended: in a poller fire whose "get last block header" call succeeds, no
  notification that carries a height is sent if the returned hash does not parse or
  equals the last known hash; if it parses and differs, exactly two are sent, one
  \<^verbatim>\<open>lastKnownBlockHeightUpdated\<close> and then one \<^verbatim>\<open>localBlockchainUpdated\<close>, each with the
  height of the response. In every fire that reaches the "get info" call (every fire but
  one whose header call succeeds with a hash that does not parse), one
  \<^verbatim>\<open>peerCountUpdated\<close> notification is sent exactly when that call succeeds with a total
  peer count other than the cached one, whatever the hash.
\<close>

theorem C3_notifications:
  assumes "jsonRpcCommand header init_get_last_block_header_response = (ec, rsp)"
      and "jsonCommand info init_get_info_response = (ec', rsp')"
  shows "(ec = None \<longrightarrow>
            height_notifications (updateNodeStatus parse_hash256 header info s) =
              height_notifications s @
              (case parse_hash256 (hash (block_header rsp)) of
                 None \<Rightarrow> []
               | Some blockHash' \<Rightarrow>
                   if blockHash' = m_lastKnowHash s then []
                   else [lastKnownBlockHeightUpdated (height (block_header rsp)),
                         localBlockchainUpdated (height (block_header rsp))]))
       \<and> (\<not> (ec = None \<and> parse_hash256 (hash (block_header rsp)) = None) \<longrightarrow>
            peer_notifications (updateNodeStatus parse_hash256 header info s) =
              peer_notifications s @
              (if ec' = None \<and> total_peer_count rsp' \<noteq> m_peerCount s
               then [peerCountUpdated (total_peer_count rsp')] else []))"
proof (cases "ec = None")
  case False
  then have "fst (jsonRpcCommand header init_get_last_block_header_response) \<noteq> None"
    using assms(1) by simp
  then have "updateNodeStatus parse_hash256 header info s
               = updatePeerCount info (issue ''getlastblockheader'' s)"
    by (rule updateNodeStatus_header_error)
  with False assms(2) show ?thesis
    by (auto simp: updatePeerCount_peer_notifications issue_frame)
next
  case True
  note ok = assms(1) [unfolded True]
  show ?thesis
  proof (cases "parse_hash256 (hash (block_header rsp))")
    case None
    with True ok show ?thesis
      by (simp add: updateNodeStatus_unparsed issue_frame)
  next
    case (Some h)
    show ?thesis
    proof (cases "h = m_lastKnowHash s")
      case same: True
      with Some ok have "updateNodeStatus parse_hash256 header info s
                           = updatePeerCount info (issue ''getlastblockheader'' s)"
        by (simp add: updateNodeStatus_same_hash)
      with True Some same assms(2) show ?thesis
        by (simp add: updatePeerCount_peer_notifications updatePeerCount_frame issue_frame)
    next
      case new: False
      have eq: "updateNodeStatus parse_hash256 header info s
                  = updatePeerCount info
                      (notify (localBlockchainUpdated (height (block_header rsp)))
                        (notify (lastKnownBlockHeightUpdated (height (block_header rsp)))
                          ((issue ''getlastblockheader'' s)
                             \<lparr>m_lastKnowHash := h,
                              m_nodeHeight := height (block_header rsp),
                              m_lastLocalBlockTimestamp := timestamp (block_header rsp),
                              m_networkHeight := height (block_header rsp)\<rparr>)))"
        using ok Some new by (rule updateNodeStatus_new_hash)
      from True Some new assms(2) show ?thesis
        unfolding eq
        by (simp add: updatePeerCount_peer_notifications updatePeerCount_frame)
          (simp add: height_notifications_def peer_notifications_def notify_def issue_def)
    qed
  qed
qed

text \<open>
  The amended claim C3 at a poll with a new hash and a new peer count.
\<close>

theorem C3_notifications_witness:
  "jsonRpcCommand
     (Reply 200 (Result \<lparr>status = ''OK'', block_header =
        \<lparr>hash = ''0000000000000000000000000000000000000000000000000000000000000001'',
         height = 5, timestamp = 1000\<rparr>\<rparr>)) init_get_last_block_header_response
     = (None, \<lparr>status = ''OK'', block_header =
        \<lparr>hash = ''0000000000000000000000000000000000000000000000000000000000000001'',
         height = 5, timestamp = 1000\<rparr>\<rparr>)
   \<and> jsonCommand (Returns \<lparr>status = ''OK'', incoming_connections_count = 1,
        outgoing_connections_count = 2\<rparr>) init_get_info_response
     = (None, \<lparr>status = ''OK'', incoming_connections_count = 1,
        outgoing_connections_count = 2\<rparr>)
   \<and> height_notifications
       (updateNodeStatus hex_hash_parser
         (Reply 200 (Result \<lparr>status = ''OK'', block_header =
            \<lparr>hash = ''0000000000000000000000000000000000000000000000000000000000000001'',
             height = 5, timestamp = 1000\<rparr>\<rparr>))
         (Returns \<lparr>status = ''OK'', incoming_connections_count = 1,
            outgoing_connections_count = 2\<rparr>)
         (newNodeRpcProxy ''localhost'' 8081))
     = [lastKnownBlockHeightUpdated 5, localBlockchainUpdated 5]
   \<and> peer_notifications
       (updateNodeStatus hex_hash_parser
         (Reply 200 (Result \<lparr>status = ''OK'', block_header =
            \<lparr>hash = ''0000000000000000000000000000000000000000000000000000000000000001'',
             height = 5, timestamp = 1000\<rparr>\<rparr>))
         (Returns \<lparr>status = ''OK'', incoming_connections_count = 1,
            outgoing_connections_count = 2\<rparr>)
         (newNodeRpcProxy ''localhost'' 8081))
     = [peerCountUpdated 3]"
proof -
  have h: "jsonRpcCommand
     (Reply 200 (Result \<lparr>status = ''OK'', block_header =
        \<lparr>hash = ''0000000000000000000000000000000000000000000000000000000000000001'',
         height = 5, timestamp = 1000\<rparr>\<rparr>)) init_get_last_block_header_response
     = (None, \<lparr>status = ''OK'', block_header =
        \<lparr>hash = ''0000000000000000000000000000000000000000000000000000000000000001'',
         height = 5, timestamp = 1000\<rparr>\<rparr>)"
    by (simp add: dispatch_defs)
  have i: "jsonCommand (Returns \<lparr>status = ''OK'', incoming_connections_count = 1,
        outgoing_connections_count = 2\<rparr>) init_get_info_response
     = (None, \<lparr>status = ''OK'', incoming_connections_count = 1,
        outgoing_connections_count = 2\<rparr>)"
    by (simp add: dispatch_defs)
  show ?thesis
    using h i C3_notifications [OF h i, of hex_hash_parser "newNodeRpcProxy ''localhost'' 8081"]
    by (simp add: hex_hash_parser_one null_hash_not_one newNodeRpcProxy_def
        resetInternalState_def height_notifications_def peer_notifications_def
        total_peer_count_def)
qed

text \<open>
  Claim C4: every poller fire issues a "get info" call. The code does not: when the
  header call succeeds with a hash string that \<^verbatim>\<open>parse_hash256\<close> rejects,
  \<^verbatim>\<open>updateNodeStatus\<close> returns before \<^verbatim>\<open>updatePeerCount\<close>. In the first poll below the only
  command issued is the header call, and the peer count stays 0 although the daemon has
  three connections.
\<close>

theorem C4_unparseable_hash_skips_getinfo:
  "m_httpClient
     (workerThread hex_hash_parser
        (Reply 200 (Result \<lparr>status = ''OK'', block_header =
           \<lparr>hash = ''zz'', height = 5, timestamp = 1000\<rparr>\<rparr>))
        (Returns \<lparr>status = ''OK'', incoming_connections_count = 1,
                  outgoing_connections_count = 2\<rparr>)
        0 (init 0 (newNodeRpcProxy ''localhost'' 8081)))
     = [''getlastblockheader'']
   \<and> m_peerCount
     (workerThread hex_hash_parser
        (Reply 200 (Result \<lparr>status = ''OK'', block_header =
           \<lparr>hash = ''zz'', height = 5, timestamp = 1000\<rparr>\<rparr>))
        (Returns \<lparr>status = ''OK'', incoming_connections_count = 1,
                  outgoing_connections_count = 2\<rparr>)
        0 (init 0 (newNodeRpcProxy ''localhost'' 8081)))
     = 0
   \<and> m_observerManager
     (workerThread hex_hash_parser
        (Reply 200 (Result \<lparr>status = ''OK'', block_header =
           \<lparr>hash = ''zz'', height = 5, timestamp = 1000\<rparr>\<rparr>))
        (Returns \<lparr>status = ''OK'', incoming_connections_count = 1,
                  outgoing_connections_count = 2\<rparr>)
        0 (init 0 (newNodeRpcProxy ''localhost'' 8081)))
     = []"
  by (simp add: workerThread_def init_def newNodeRpcProxy_def resetInternalState_def
      beginInit_def endInit_def pullNodeStatusAndScheduleTheNext_def updateNodeStatus_def
      dispatch_defs init_defs log_defs hex_hash_parser_zz Let_def)

text \<open>
  Claim C7, as stated, fails: in a poll whose header call returns \<open>NETWORK_ERROR\<close> the
  "get info" call still runs, the peer count changes from 0 to 3 and the observers are
  notified.
\<close>

theorem C7_header_error_peer_count_changes:
  "fst (jsonRpcCommand RequestThrows init_get_last_block_header_response) = Some NETWORK_ERROR
   \<and> m_peerCount (init 0 (newNodeRpcProxy ''localhost'' 8081)) = 0
   \<and> m_peerCount
     (workerThread hex_hash_parser RequestThrows
        (Returns \<lparr>status = ''OK'', incoming_connections_count = 1,
                  outgoing_connections_count = 2\<rparr>)
        0 (init 0 (newNodeRpcProxy ''localhost'' 8081)))
     = 3
   \<and> m_observerManager
     (workerThread hex_hash_parser RequestThrows
        (Returns \<lparr>status = ''OK'', incoming_connections_count = 1,
                  outgoing_connections_count = 2\<rparr>)
        0 (init 0 (newNodeRpcProxy ''localhost'' 8081)))
     = [peerCountUpdated 3]"
  by (simp add: workerThread_def init_def newNodeRpcProxy_def resetInternalState_def
      beginInit_def endInit_def pullNodeStatusAndScheduleTheNext_def updateNodeStatus_def
      updatePeerCount_def dispatch_defs init_defs log_defs Let_def)

text \<open>
  Claim C7, amended: an error of a dispatcher call in a poller fire suppresses the
  updates that depend on that call. If the header call returns an error, node height,
  network height, last known hash and last local block timestamp are not modified and no
  notification that carries a height is sent. If the "get info" call returns an error,
  the peer count is not modified and no peer-count notification is sent. If both return
  an error, the proxy is unchanged apart from the record of the two commands issued. In
  every fire no callback is invoked: no error is surfaced to a caller.
\<close>

theorem C7_poll_errors:
  "(fst (jsonRpcCommand header init_get_last_block_header_response) \<noteq> None \<longrightarrow>
      m_nodeHeight (updateNodeStatus parse_hash256 header info s) = m_nodeHeight s
    \<and> m_networkHeight (updateNodeStatus parse_hash256 header info s) = m_networkHeight s
    \<and> m_lastKnowHash (updateNodeStatus parse_hash256 header info s) = m_lastKnowHash s
    \<and> m_lastLocalBlockTimestamp (updateNodeStatus parse_hash256 header info s)
        = m_lastLocalBlockTimestamp s
    \<and> height_notifications (updateNodeStatus parse_hash256 header info s)
        = height_notifications s)
   \<and> (fst (jsonCommand info init_get_info_response) \<noteq> None \<longrightarrow>
      m_peerCount (updateNodeStatus parse_hash256 header info s) = m_peerCount s
    \<and> peer_notifications (updateNodeStatus parse_hash256 header info s)
        = peer_notifications s)
   \<and> (fst (jsonRpcCommand header init_get_last_block_header_response) \<noteq> None
      \<and> fst (jsonCommand info init_get_info_response) \<noteq> None \<longrightarrow>
      updateNodeStatus parse_hash256 header info s
        = s\<lparr>m_httpClient := m_httpClient s @ [''getlastblockheader'', ''/getinfo'']\<rparr>)
   \<and> callbacks (updateNodeStatus parse_hash256 header info s) = callbacks s"
  by (simp add: updateNodeStatus_header_error_fields updateNodeStatus_info_error_fields
      updateNodeStatus_callbacks)
    (simp add: updateNodeStatus_header_error updatePeerCount_error issue_def)

text \<open>
  The amended claim C7 at a poll in which both calls fail.
\<close>

theorem C7_poll_errors_witness:
  "fst (jsonRpcCommand (Reply 404 NoResult) init_get_last_block_header_response) \<noteq> None
   \<and> fst (jsonCommand Throws init_get_info_response) \<noteq> None
   \<and> updateNodeStatus hex_hash_parser (Reply 404 NoResult) Throws
        (newNodeRpcProxy ''localhost'' 8081)
       = (newNodeRpcProxy ''localhost'' 8081)
           \<lparr>m_httpClient := [''getlastblockheader'', ''/getinfo'']\<rparr>
   \<and> callbacks (updateNodeStatus hex_hash_parser (Reply 404 NoResult) Throws
        (newNodeRpcProxy ''localhost'' 8081)) = []"
  using C7_poll_errors [where header = "Reply 404 NoResult" and info = Throws
      and ?parse_hash256.0 = hex_hash_parser and s = "newNodeRpcProxy ''localhost'' 8081"]
  by (simp add: dispatch_defs newNodeRpcProxy_def resetInternalState_def)

subsection \<open>Query blocks\<close>

lemma push_back_items_append:
  "push_back_items its newBlocks =
     newBlocks @ map (\<lambda>item. \<lparr>blockHash = block_id item,
          BlockCompleteEntry.block = block_complete_entry.block item,
          BlockCompleteEntry.txs = block_complete_entry.txs item\<rparr>) its"
  by (induction its arbitrary: newBlocks) simp_all

text \<open>
  Claim C5: after a successful \<^verbatim>\<open>queryBlocks\<close> response with N items the caller's list
  has received exactly N entries, appended in the order of the items, each with the block
  id, block body and transaction list of its item, and the caller's start height is the
  start height of the response; the callback is invoked with no error.
\<close>

theorem C5_queryBlocks:
  assumes "binaryCommand answer init_query_blocks_response = (None, rsp)"
  shows "fst (doQueryBlocks answer knownBlockIds timestamp' newBlocks startHeight cb s)
           = (newBlocks @ map (\<lambda>item. \<lparr>blockHash = block_id item,
                BlockCompleteEntry.block = block_complete_entry.block item,
                BlockCompleteEntry.txs = block_complete_entry.txs item\<rparr>) (items rsp),
              query_blocks_response.start_height rsp)
       \<and> length (fst (fst (doQueryBlocks answer knownBlockIds timestamp' newBlocks
            startHeight cb s))) = length newBlocks + length (items rsp)
       \<and> (\<forall>i < length (items rsp).
            blockHash (fst (fst (doQueryBlocks answer knownBlockIds timestamp' newBlocks
                startHeight cb s)) ! (length newBlocks + i)) = block_id (items rsp ! i)
          \<and> BlockCompleteEntry.block (fst (fst (doQueryBlocks answer knownBlockIds timestamp'
                newBlocks startHeight cb s)) ! (length newBlocks + i))
              = block_complete_entry.block (items rsp ! i)
          \<and> BlockCompleteEntry.txs (fst (fst (doQueryBlocks answer knownBlockIds timestamp'
                newBlocks startHeight cb s)) ! (length newBlocks + i))
              = block_complete_entry.txs (items rsp ! i))
       \<and> callbacks (snd (doQueryBlocks answer knownBlockIds timestamp' newBlocks startHeight
            cb s)) = callbacks s @ [(cb, None)]"
  using assms
  by (simp add: doQueryBlocks_def push_back_items_append invoke_def issue_def nth_append)

text \<open>
  Claim C5 at a response with two items.
\<close>

theorem C5_queryBlocks_witness:
  "binaryCommand
     (Returns \<lparr>status = ''OK'',
        items = [\<lparr>block_complete_entry.block = ''b1'', block_complete_entry.txs = [''t1'', ''t2''],
                  block_id = [1]\<rparr>,
                 \<lparr>block_complete_entry.block = ''b2'', block_complete_entry.txs = [],
                  block_id = [2]\<rparr>],
        query_blocks_response.start_height = 10\<rparr>) init_query_blocks_response
     = (None, \<lparr>status = ''OK'',
        items = [\<lparr>block_complete_entry.block = ''b1'', block_complete_entry.txs = [''t1'', ''t2''],
                  block_id = [1]\<rparr>,
                 \<lparr>block_complete_entry.block = ''b2'', block_complete_entry.txs = [],
                  block_id = [2]\<rparr>],
        query_blocks_response.start_height = 10\<rparr>)
   \<and> fst (doQueryBlocks
     (Returns \<lparr>status = ''OK'',
        items = [\<lparr>block_complete_entry.block = ''b1'', block_complete_entry.txs = [''t1'', ''t2''],
                  block_id = [1]\<rparr>,
                 \<lparr>block_complete_entry.block = ''b2'', block_complete_entry.txs = [],
                  block_id = [2]\<rparr>],
        query_blocks_response.start_height = 10\<rparr>)
     [] 0 [] 0 7 (newNodeRpcProxy ''localhost'' 8081))
     = ([\<lparr>blockHash = [1], BlockCompleteEntry.block = ''b1'',
          BlockCompleteEntry.txs = [''t1'', ''t2'']\<rparr>,
         \<lparr>blockHash = [2], BlockCompleteEntry.block = ''b2'', BlockCompleteEntry.txs = []\<rparr>],
        10)"
proof -
  have h: "binaryCommand
     (Returns \<lparr>status = ''OK'',
        items = [\<lparr>block_complete_entry.block = ''b1'', block_complete_entry.txs = [''t1'', ''t2''],
                  block_id = [1]\<rparr>,
                 \<lparr>block_complete_entry.block = ''b2'', block_complete_entry.txs = [],
                  block_id = [2]\<rparr>],
        query_blocks_response.start_height = 10\<rparr>) init_query_blocks_response
     = (None, \<lparr>status = ''OK'',
        items = [\<lparr>block_complete_entry.block = ''b1'', block_complete_entry.txs = [''t1'', ''t2''],
                  block_id = [1]\<rparr>,
                 \<lparr>block_complete_entry.block = ''b2'', block_complete_entry.txs = [],
                  block_id = [2]\<rparr>],
        query_blocks_response.start_height = 10\<rparr>)"
    by (simp add: dispatch_defs)
  show ?thesis
    using h C5_queryBlocks [OF h, of "[]" 0 "[]" 0 7 "newNodeRpcProxy ''localhost'' 8081"]
    by simp
qed

subsection \<open>Output storage when the command fails\<close>

text \<open>
  Claim C9: when the dispatcher call of an executed operation returns an error code, the
  output storage of the caller (\<^verbatim>\<open>outs\<close>, \<^verbatim>\<open>newBlocks\<close>, \<^verbatim>\<open>startHeight\<close>,
  \<^verbatim>\<open>outsGlobalIndices\<close>) is returned as it was, and the callback is invoked once, with the
  error code of the call.
\<close>

theorem C9_outputs_unchanged_on_error:
  "(fst (binaryCommand a1 init_get_random_outs_response) \<noteq> None \<longrightarrow>
      fst (doGetRandomOutsByAmounts a1 amounts outsCount outs' cb s) = outs')
   \<and> callbacks (snd (doGetRandomOutsByAmounts a1 amounts outsCount outs' cb s))
        = callbacks s @ [(cb, fst (binaryCommand a1 init_get_random_outs_response))]
   \<and> (fst (binaryCommand a2 init_get_blocks_fast_response) \<noteq> None \<longrightarrow>
      fst (doGetNewBlocks a2 knownBlockIds newBlocks startHeight cb s)
        = (newBlocks, startHeight))
   \<and> callbacks (snd (doGetNewBlocks a2 knownBlockIds newBlocks startHeight cb s))
        = callbacks s @ [(cb, fst (binaryCommand a2 init_get_blocks_fast_response))]
   \<and> (fst (binaryCommand a3 init_get_o_indexes_response) \<noteq> None \<longrightarrow>
      fst (doGetTransactionOutsGlobalIndices a3 transactionHash outsGlobalIndices cb s)
        = outsGlobalIndices)
   \<and> callbacks (snd (doGetTransactionOutsGlobalIndices a3 transactionHash outsGlobalIndices cb s))
        = callbacks s @ [(cb, fst (binaryCommand a3 init_get_o_indexes_response))]
   \<and> (fst (binaryCommand a4 init_query_blocks_response) \<noteq> None \<longrightarrow>
      fst (doQueryBlocks a4 knownBlockIds timestamp' newBlocks' startHeight cb s)
        = (newBlocks', startHeight))
   \<and> callbacks (snd (doQueryBlocks a4 knownBlockIds timestamp' newBlocks' startHeight cb s))
        = callbacks s @ [(cb, fst (binaryCommand a4 init_query_blocks_response))]
   \<and> callbacks (doRelayTransaction a5 transaction cb s)
        = callbacks s @ [(cb, fst (jsonCommand a5 init_send_raw_tx_response))]"
  by (auto simp: doGetRandomOutsByAmounts_def doGetNewBlocks_def
      doGetTransactionOutsGlobalIndices_def doQueryBlocks_def doRelayTransaction_def
      invoke_def issue_def Let_def split: prod.splits)

text \<open>
  Claim C9 at calls that fail with an exception, with "BUSY" and with another status.
\<close>

theorem C9_outputs_unchanged_on_error_witness:
  "fst (binaryCommand Throws init_get_random_outs_response) \<noteq> None
   \<and> fst (doGetRandomOutsByAmounts Throws [100] 3 [(100, [(1, ''k'')])] 7
        (newNodeRpcProxy ''localhost'' 8081)) = [(100, [(1, ''k'')])]
   \<and> fst (binaryCommand (Returns \<lparr>status = ''BUSY'', blocks = [],
        get_blocks_fast_response.start_height = 9\<rparr>) init_get_blocks_fast_response) \<noteq> None
   \<and> fst (doGetNewBlocks (Returns \<lparr>status = ''BUSY'', blocks = [],
        get_blocks_fast_response.start_height = 9\<rparr>) [] [\<lparr>block_complete_entry.block = ''b'', block_complete_entry.txs = []\<rparr>] 4 7
        (newNodeRpcProxy ''localhost'' 8081)) = ([\<lparr>block_complete_entry.block = ''b'', block_complete_entry.txs = []\<rparr>], 4)
   \<and> fst (binaryCommand (Returns \<lparr>status = ''Failed'', o_indexes = [8]\<rparr>)
        init_get_o_indexes_response) \<noteq> None
   \<and> fst (doGetTransactionOutsGlobalIndices (Returns \<lparr>status = ''Failed'', o_indexes = [8]\<rparr>)
        [] [1, 2] 7 (newNodeRpcProxy ''localhost'' 8081)) = [1, 2]
   \<and> fst (binaryCommand Throws init_query_blocks_response) \<noteq> None
   \<and> fst (doQueryBlocks Throws [] 0
        [\<lparr>blockHash = [1], BlockCompleteEntry.block = ''b1'', BlockCompleteEntry.txs = []\<rparr>] 4 7
        (newNodeRpcProxy ''localhost'' 8081))
       = ([\<lparr>blockHash = [1], BlockCompleteEntry.block = ''b1'', BlockCompleteEntry.txs = []\<rparr>], 4)
   \<and> callbacks (snd (doQueryBlocks Throws [] 0
        [\<lparr>blockHash = [1], BlockCompleteEntry.block = ''b1'', BlockCompleteEntry.txs = []\<rparr>] 4 7
        (newNodeRpcProxy ''localhost'' 8081))) = [(7, Some NETWORK_ERROR)]"
  using C9_outputs_unchanged_on_error [where ?a1.0 = Throws and amounts = "[100]" and outsCount = 3
      and outs' = "[(100, [(1, ''k'')])]" and cb = 7 and s = "newNodeRpcProxy ''localhost'' 8081"
      and ?a2.0 = "Returns \<lparr>status = ''BUSY'', blocks = [],
        get_blocks_fast_response.start_height = 9\<rparr>"
      and knownBlockIds = "[]" and newBlocks = "[\<lparr>block_complete_entry.block = ''b'', block_complete_entry.txs = []\<rparr>]" and startHeight = 4
      and ?a3.0 = "Returns \<lparr>status = ''Failed'', o_indexes = [8]\<rparr>" and transactionHash = "[]"
      and outsGlobalIndices = "[1, 2]"
      and ?a4.0 = Throws and timestamp' = 0
      and newBlocks' = "[\<lparr>blockHash = [1], BlockCompleteEntry.block = ''b1'',
          BlockCompleteEntry.txs = []\<rparr>]"]
  by (simp add: dispatch_defs newNodeRpcProxy_def resetInternalState_def)

subsection \<open>Shutdown\<close>

lemma shutdown_not_initialized:
  "m_initState s \<noteq> Initialized \<Longrightarrow> shutdown s = (False, s)"
  by (simp add: shutdown_def beginShutdown_def)

lemma shutdown_initialized:
  "m_initState s = Initialized \<Longrightarrow> fst (shutdown s)"
  "m_initState s = Initialized \<Longrightarrow> m_initState (snd (shutdown s)) \<noteq> Initialized"
  "m_initState s = Initialized \<Longrightarrow> m_workerThread_joinable s \<Longrightarrow>
     m_initState (snd (shutdown s)) = ShutDown"
  by (simp_all add: shutdown_def beginShutdown_def endShutdown_def Let_def)

lemma shutdown_calls_not_initialized:
  "m_initState s \<noteq> Initialized \<Longrightarrow> shutdown_calls n s = replicate n False"
  by (induction n) (simp_all add: shutdown_not_initialized)

text \<open>
  Claim C6: \<^verbatim>\<open>shutdown\<close> returns false, and changes nothing, whenever the lifecycle
  state is not Initialized; a second call in a row returns false; from Initialized it
  returns true and leaves a state other than Initialized (ShutDown when the worker thread
  was joined), so that of any number of calls in a row exactly the first returns true.
\<close>

theorem C6_shutdown:
  "(m_initState s \<noteq> Initialized \<longrightarrow> shutdown s = (False, s))
   \<and> \<not> fst (shutdown (snd (shutdown s)))
   \<and> (m_initState s = Initialized \<longrightarrow>
        fst (shutdown s)
      \<and> m_initState (snd (shutdown s)) \<noteq> Initialized
      \<and> (m_workerThread_joinable s \<longrightarrow> m_initState (snd (shutdown s)) = ShutDown)
      \<and> shutdown_calls (Suc n) s = True # replicate n False)"
proof (cases "m_initState s = Initialized")
  case True
  then have "m_initState (snd (shutdown s)) \<noteq> Initialized"
    by (rule shutdown_initialized)
  with True show ?thesis
    by (simp add: shutdown_initialized shutdown_not_initialized shutdown_calls_not_initialized)
next
  case False
  then show ?thesis
    by (simp add: shutdown_not_initialized)
qed

text \<open>
  Claim C6 at a proxy that was never initialized and at a proxy whose worker thread has
  started.
\<close>

theorem C6_shutdown_witness:
  "m_initState (newNodeRpcProxy ''localhost'' 8081) \<noteq> Initialized
   \<and> shutdown (newNodeRpcProxy ''localhost'' 8081) = (False, newNodeRpcProxy ''localhost'' 8081)
   \<and> m_initState
       (workerThread hex_hash_parser
         (Reply 200 (Result \<lparr>status = ''OK'', block_header =
            \<lparr>hash = ''0000000000000000000000000000000000000000000000000000000000000001'',
             height = 5, timestamp = 1000\<rparr>\<rparr>))
         (Returns \<lparr>status = ''OK'', incoming_connections_count = 1,
            outgoing_connections_count = 2\<rparr>)
         0 (init 0 (newNodeRpcProxy ''localhost'' 8081))) = Initialized
   \<and> shutdown_calls (Suc 2)
       (workerThread hex_hash_parser
         (Reply 200 (Result \<lparr>status = ''OK'', block_header =
            \<lparr>hash = ''0000000000000000000000000000000000000000000000000000000000000001'',
             height = 5, timestamp = 1000\<rparr>\<rparr>))
         (Returns \<lparr>status = ''OK'', incoming_connections_count = 1,
            outgoing_connections_count = 2\<rparr>)
         0 (init 0 (newNodeRpcProxy ''localhost'' 8081))) = [True, False, False]
   \<and> m_initState (snd (shutdown
       (workerThread hex_hash_parser
         (Reply 200 (Result \<lparr>status = ''OK'', block_header =
            \<lparr>hash = ''0000000000000000000000000000000000000000000000000000000000000001'',
             height = 5, timestamp = 1000\<rparr>\<rparr>))
         (Returns \<lparr>status = ''OK'', incoming_connections_count = 1,
            outgoing_connections_count = 2\<rparr>)
         0 (init 0 (newNodeRpcProxy ''localhost'' 8081))))) = ShutDown"
proof -
  let ?W = "workerThread hex_hash_parser
         (Reply 200 (Result \<lparr>status = ''OK'', block_header =
            \<lparr>hash = ''0000000000000000000000000000000000000000000000000000000000000001'',
             height = 5, timestamp = 1000\<rparr>\<rparr>))
         (Returns \<lparr>status = ''OK'', incoming_connections_count = 1,
            outgoing_connections_count = 2\<rparr>)
         0 (init 0 (newNodeRpcProxy ''localhost'' 8081))"
  let ?N = "newNodeRpcProxy ''localhost'' 8081"
  have a: "m_initState ?W = Initialized" "m_workerThread_joinable ?W"
    by (simp_all add: started_proxy)
  have b: "m_initState ?N \<noteq> Initialized"
    by (simp add: newNodeRpcProxy_def resetInternalState_def)
  from C6_shutdown [where s = ?W and n = 2] a
  have c: "shutdown_calls (Suc 2) ?W = True # replicate 2 False"
    "m_initState (snd (shutdown ?W)) = ShutDown"
    by blast+
  from C6_shutdown [where s = ?N] b have d: "shutdown ?N = (False, ?N)"
    by blast
  have e: "True # replicate 2 False = [True, False, False]"
    by (simp add: numeral_2_eq_2)
  from a(1) b c d show ?thesis
    unfolding e by blast
qed

subsection \<open>The poller, cancellation and the stop of the io service\<close>





text \<open>
  Run one after the other, the steps of a fire are the handler of the source, and the
  statements of \<^verbatim>\<open>shutdown\<close>, with the worker leaving its loop before the join, are the
  function \<open>shutdown\<close>.
\<close>

lemma fire_steps:
  "worker t = AtLoop \<Longrightarrow> \<not> m_ioService_stopped (proxy t) \<Longrightarrow> m_pullTimer (proxy t) = Expired \<Longrightarrow>
   proxy (worker_rearms (worker_polls parse_hash256 header info (worker_loop t)))
     = pullTimer_handler asio_success parse_hash256 header info
         ((proxy t)\<lparr>m_pullTimer := NoWait\<rparr>)"
  by (simp add: worker_loop_def handler_called_def worker_polls_def worker_rearms_def
      pullTimer_handler_def pullNodeStatusAndScheduleTheNext_def)

lemma shutdown_steps:
  assumes "m_initState (proxy t) = Initialized" and "caller t = Outside" and "worker t = AtLoop"
  shows "proxy (shutdown_joins (worker_loop (shutdown_stops (shutdown_cancels
           (shutdown_begins t))))) = snd (shutdown (proxy t))"
proof -
  let ?b = "t\<lparr>proxy := (proxy t)\<lparr>m_initState := ShuttingDown\<rparr>, caller := Cancelling\<rparr>"
  let ?c = "?b\<lparr>proxy := (proxy ?b)\<lparr>m_pullTimer := cancel (m_pullTimer (proxy ?b))\<rparr>,
              caller := Stopping\<rparr>"
  let ?s = "?c\<lparr>proxy := (proxy ?c)\<lparr>m_ioService_stopped := True\<rparr>, caller := Joining\<rparr>"
  have b: "shutdown_begins t = ?b"
    using assms by (simp add: shutdown_begins_def beginShutdown_def)
  have c: "shutdown_cancels ?b = ?c"
    by (simp add: shutdown_cancels_def)
  have s: "shutdown_stops ?c = ?s"
    by (simp add: shutdown_stops_def)
  have l: "worker_loop ?s = ?s\<lparr>worker := Exited\<rparr>"
    using assms by (simp add: worker_loop_def)
  show ?thesis
    unfolding b c s l using assms
    by (simp add: shutdown_joins_def shutdown_def beginShutdown_def Let_def)
qed





















subsection \<open>Accessors\<close>

text \<open>
  Claim C10: in every state of the proxy \<^verbatim>\<open>getLocalBlockCount\<close> returns what
  \<^verbatim>\<open>getLastLocalBlockHeight\<close> returns, and \<^verbatim>\<open>getKnownBlockCount\<close> what
  \<^verbatim>\<open>getLastKnownBlockHeight\<close> returns.
\<close>

theorem C10_accessors:
  "getLocalBlockCount s = getLastLocalBlockHeight s
   \<and> getKnownBlockCount s = getLastKnownBlockHeight s"
  by (simp add: getLocalBlockCount_def getLastLocalBlockHeight_def
      getKnownBlockCount_def getLastKnownBlockHeight_def)

end
